theory Spec2Isabelle
  imports Main "HOL-Library.Sublist"
begin

section \<open>Text: Python strings, line iteration and \<open>str.strip\<close>\<close>

text \<open>
  A Python \<open>str\<close> is modelled as a \<open>string\<close> whose characters stand for the code
  points below 256. \<open>LF\<close> and \<open>CR\<close> are the two characters that end a line when a
  file opened with \<open>open(path, "r")\<close> is iterated (universal newlines).
\<close>

definition LF :: char where
  "LF = CHR 0x0A"

definition CR :: char where
  "CR = CHR 0x0D"

text \<open>
  \<open>str.isspace\<close> on one character, for the code points below 256: TAB, LF, VT, FF, CR
  (9 to 13), FS, GS, RS, US and the space (28 to 32), NEL (133) and NBSP (160).
\<close>

definition isspace :: "char \<Rightarrow> bool" where
  "isspace c =
     (let n = (of_char c :: nat)
      in (9 \<le> n \<and> n \<le> 13) \<or> (28 \<le> n \<and> n \<le> 32) \<or> n = 133 \<or> n = 160)"

text \<open>\<open>s.strip()\<close>: leading and trailing whitespace removed.\<close>

definition py_strip :: "string \<Rightarrow> string" where
  "py_strip s = rev (dropWhile isspace (rev (dropWhile isspace s)))"

text \<open>
  \<open>for line in fh\<close> on a text file: the content is cut after every line end; a line end
  is LF, CR or CR LF, and each is handed to the program as a single LF. A last line
  without a line end is yielded as it is. \<open>cur\<close> is the line read so far.
\<close>

fun py_lines_from :: "string \<Rightarrow> string \<Rightarrow> string list" where
  "py_lines_from cur [] = (if cur = [] then [] else [cur])"
| "py_lines_from cur (c # cs) =
     (if c = LF then (cur @ [LF]) # py_lines_from [] cs
      else if c = CR then
        (case cs of
           [] \<Rightarrow> [cur @ [LF]]
         | d # ds \<Rightarrow>
             if d = LF then (cur @ [LF]) # py_lines_from [] ds
             else (cur @ [LF]) # py_lines_from [] cs)
      else py_lines_from (cur @ [c]) cs)"

definition py_lines :: "string \<Rightarrow> string list" where
  "py_lines content = py_lines_from [] content"

section \<open>The nodes file (\<open>sambacc/ctdb.py\<close>)\<close>

text \<open>
  \<open>write_nodes_file(fh, ctdb_nodes)\<close>: one \<open>fh.write(f"{node}\n")\<close> per node. The first
  argument is what the file holds so far; \<open>open(real_path, "w")\<close> starts from the empty
  file.
\<close>

fun write_nodes_file :: "string \<Rightarrow> string list \<Rightarrow> string" where
  "write_nodes_file fh [] = fh"
| "write_nodes_file fh (node # ctdb_nodes) = write_nodes_file (fh @ node @ [LF]) ctdb_nodes"

text \<open>\<open>read_nodes_file(fh)\<close>: \<open>entries.append(line.strip())\<close> for every line of the file.\<close>

fun read_nodes_loop :: "string list \<Rightarrow> string list \<Rightarrow> string list" where
  "read_nodes_loop entries [] = entries"
| "read_nodes_loop entries (line # rest) = read_nodes_loop (entries @ [py_strip line]) rest"

definition read_nodes_file :: "string \<Rightarrow> string list" where
  "read_nodes_file fh = read_nodes_loop [] (py_lines fh)"

text \<open>
  \<open>read_ctdb_nodes(path)\<close>: the file at \<open>path\<close> is \<open>None\<close> when it does not exist
  (\<open>FileNotFoundError\<close> is caught and the empty list returned).
\<close>

definition read_ctdb_nodes :: "string option \<Rightarrow> string list" where
  "read_ctdb_nodes file =
     (case file of
        None \<Rightarrow> []
      | Some fh \<Rightarrow> read_nodes_file fh)"

text \<open>
  An address survives a write followed by a read when it holds no line end and
  \<open>strip\<close> leaves it as it is.
\<close>

definition clean_address :: "string \<Rightarrow> bool" where
  "clean_address a = (LF \<notin> set a \<and> CR \<notin> set a \<and> py_strip a = a)"

section \<open>Errors\<close>

text \<open>
  Every exception the modelled code raises is a value. The three \<open>ValueError\<close>s are
  told apart by what their message is built from:
  \<open>ValueError("duplicate pnn")\<close>,
  \<open>ValueError(f'unexpected pnn {pnn} for nodes {ctdb_nodes}')\<close> and
  \<open>ValueError(f"expected pnn {expected_pnn} is not {found_pnn}")\<close>.
\<close>

datatype value_error =
    Duplicate_pnn
  | Unexpected_pnn int "string list"
  | Expected_pnn_is_not int int

datatype py_error =
    FileNotFoundError
  | ValueError value_error
  | CalledProcessError int
  | NodeNotPresent
  | Fail string
  | KeyboardInterrupt
  | Exception string

section \<open>The JSON state file and the file system\<close>

text \<open>
  One element of the \<open>"nodes"\<close> list of the JSON state file: the dict
  \<open>{"node": ..., "pnn": ..., "in_nodes": ...}\<close>. \<open>pnn\<close> is a Python int.
\<close>

record node_entry =
  entry_node :: string
  entry_pnn :: int
  entry_in_nodes :: bool

text \<open>
  The JSON data: a dict that may or may not have the key \<open>"nodes"\<close>
  (\<open>doc_nodes = None\<close> is the dict \<open>{}\<close>).
\<close>

record json_data =
  doc_nodes :: "node_entry list option"

text \<open>
  What the modelled functions read and write:
  \<^item> \<open>json_file\<close>: the JSON state file at \<open>nodes_json\<close>, \<open>None\<close> when it does not exist.
    \<open>jfile\<close> is not among the sources; from its callers and \<open>tests/test_ctdb.py\<close>:
    \<open>jfile.open(path, OPEN_RO)\<close> raises \<open>FileNotFoundError\<close> on a missing file,
    \<open>jfile.open(path, OPEN_RW)\<close> creates it, \<open>jfile.load(fh, {})\<close> returns \<open>{}\<close> for an
    empty file (so an empty file is the value \<open>Some \<lparr>doc_nodes = None\<rparr>\<close>), and
    \<open>jfile.dump\<close> replaces the content;
  \<^item> \<open>nodes_file\<close>: the text of the ctdb nodes file at \<open>real_path\<close>, \<open>None\<close> when it
    does not exist;
  \<^item> \<open>canon_link\<close>: the target of the symlink at \<open>canon_path\<close>, \<open>None\<close> when there is
    none;
  \<^item> \<open>reloads\<close>: how many times \<open>ctdb reloadnodes\<close> has been run.
\<close>

record fs_state =
  json_file :: "json_data option"
  nodes_file :: "string option"
  canon_link :: "string option"
  reloads :: nat

definition jfile_open_rw :: "fs_state \<Rightarrow> fs_state" where
  "jfile_open_rw s =
     (case json_file s of
        None \<Rightarrow> s\<lparr>json_file := Some \<lparr>doc_nodes = None\<rparr>\<rparr>
      | Some _ \<Rightarrow> s)"

text \<open>\<open>json_data.get("nodes", [])\<close>.\<close>

definition get_nodes :: "json_data \<Rightarrow> node_entry list" where
  "get_nodes data = (case doc_nodes data of None \<Rightarrow> [] | Some es \<Rightarrow> es)"

text \<open>
  \<open>xs[i]\<close> for a Python int \<open>i\<close>: a negative index counts from the end, and
  \<open>None\<close> is \<open>IndexError\<close>.
\<close>

definition py_index :: "'a list \<Rightarrow> int \<Rightarrow> 'a option" where
  "py_index xs i =
     (if 0 \<le> i \<and> i < int (length xs) then Some (xs ! nat i)
      else if i < 0 \<and> - int (length xs) \<le> i then Some (xs ! nat (int (length xs) + i))
      else None)"

text \<open>\<open>xs.index(x)\<close>: the first position of \<open>x\<close>; \<open>None\<close> is \<open>ValueError\<close>.\<close>

fun py_list_index :: "'a list \<Rightarrow> 'a \<Rightarrow> nat option" where
  "py_list_index [] x = None"
| "py_list_index (y # ys) x =
     (if y = x then Some 0
      else (case py_list_index ys x of None \<Rightarrow> None | Some i \<Rightarrow> Some (Suc i)))"

section \<open>Linking and filling the nodes file\<close>

text \<open>
  \<open>ensure_ctdb_nodes(ctdb_nodes, real_path, canon_path)\<close>: unlink \<open>canon_path\<close> if it is
  there, symlink it to \<open>real_path\<close>, write the nodes to \<open>real_path\<close>.
\<close>

definition ensure_ctdb_nodes :: "string list \<Rightarrow> string \<Rightarrow> fs_state \<Rightarrow> fs_state" where
  "ensure_ctdb_nodes ctdb_nodes real_path s =
     (let s1 = s\<lparr>canon_link := None\<rparr>;
          s2 = s1\<lparr>canon_link := Some real_path\<rparr>
      in s2\<lparr>nodes_file := Some (write_nodes_file [] ctdb_nodes)\<rparr>)"

text \<open>\<open>ensure_ctdb_node_present(node, real_path, canon_path, expected_pnn)\<close>.\<close>

definition ensure_ctdb_node_present ::
  "string \<Rightarrow> string \<Rightarrow> int option \<Rightarrow> fs_state \<Rightarrow> (py_error + unit) \<times> fs_state" where
  "ensure_ctdb_node_present node real_path expected_pnn s =
     (let nodes0 = read_ctdb_nodes (nodes_file s);
          nodes = (if node \<notin> set nodes0 then nodes0 @ [node] else nodes0)
      in case expected_pnn of
           None \<Rightarrow> (Inr (), ensure_ctdb_nodes nodes real_path s)
         | Some expected \<Rightarrow>
             (let found_pnn = (case py_list_index nodes node of
                                 Some i \<Rightarrow> int i
                               | None \<Rightarrow> - 1)
              in if expected \<noteq> found_pnn
                 then (Inl (ValueError (Expected_pnn_is_not expected found_pnn)), s)
                 else (Inr (), ensure_ctdb_nodes nodes real_path s)))"

section \<open>Registration in the state file\<close>

text \<open>
  \<open>_update_statefile(data, node, pnn, in_nodes)\<close>: the loop over \<open>data["nodes"]\<close> raises
  at the first entry that carries \<open>pnn\<close>; otherwise the new entry is appended.
\<close>

fun has_pnn :: "int \<Rightarrow> node_entry list \<Rightarrow> bool" where
  "has_pnn pnn [] = False"
| "has_pnn pnn (entry # rest) = (if pnn = entry_pnn entry then True else has_pnn pnn rest)"

definition update_statefile ::
  "json_data \<Rightarrow> string \<Rightarrow> int \<Rightarrow> bool \<Rightarrow> py_error + json_data" where
  "update_statefile data node pnn in_nodes =
     (let entries = get_nodes data
      in if has_pnn pnn entries then Inl (ValueError Duplicate_pnn)
         else Inr (data\<lparr>doc_nodes :=
                 Some (entries @ [\<lparr>entry_node = node, entry_pnn = pnn,
                                   entry_in_nodes = in_nodes\<rparr>])\<rparr>))"

text \<open>
  \<open>add_node_to_statefile(node, pnn, path, in_nodes)\<close>: open read-write (creating the
  file), load, update, dump. When the update raises nothing is dumped.
\<close>

definition add_node_to_statefile ::
  "string \<Rightarrow> int \<Rightarrow> bool \<Rightarrow> fs_state \<Rightarrow> (py_error + unit) \<times> fs_state" where
  "add_node_to_statefile node pnn in_nodes s =
     (let s1 = jfile_open_rw s;
          data = (case json_file s1 of None \<Rightarrow> \<lparr>doc_nodes = None\<rparr> | Some d \<Rightarrow> d)
      in case update_statefile data node pnn in_nodes of
           Inl err \<Rightarrow> (Inl err, s1)
         | Inr data' \<Rightarrow> (Inr (), s1\<lparr>json_file := Some data'\<rparr>))"

text \<open>The entries of the state file as \<open>jfile.load(fh, {}).get("nodes", [])\<close> gives them;
  none when the file is missing.\<close>

definition state_entries :: "fs_state \<Rightarrow> node_entry list" where
  "state_entries s = (case json_file s of None \<Rightarrow> [] | Some data \<Rightarrow> get_nodes data)"

text \<open>
  Registrations one after the other, each a call of \<open>add_node_to_statefile\<close> with its
  \<open>(node, pnn, in_nodes)\<close>: \<open>jfile.flock\<close> lets no two of them overlap, so any run of
  concurrent registrations is one of these sequences. The result of every call is kept.
\<close>

fun run_registrations ::
  "(string \<times> int \<times> bool) list \<Rightarrow> fs_state \<Rightarrow> (py_error + unit) list \<times> fs_state" where
  "run_registrations [] s = ([], s)"
| "run_registrations ((node, pnn, in_nodes) # rest) s =
     (case add_node_to_statefile node pnn in_nodes s of
        (r, s1) \<Rightarrow>
          (case run_registrations rest s1 of
             (rs, s2) \<Rightarrow> (r # rs, s2)))"

text \<open>How many registrations for \<open>pnn\<close> succeeded.\<close>

definition registered :: "int \<Rightarrow> (string \<times> int \<times> bool) list \<Rightarrow> (py_error + unit) list \<Rightarrow> nat" where
  "registered pnn reqs results =
     length (filter (\<lambda>(req, r). fst (snd req) = pnn \<and> r = Inr ()) (zip reqs results))"

section \<open>Reconciliation\<close>

text \<open>
  The \<open>try\<close> block of \<open>_node_update_check\<close>:
  \<open>matched = entry["node"] == ctdb_nodes[pnn]\<close>, and \<open>False\<close> on \<open>IndexError\<close>.
\<close>

definition entry_matched :: "string list \<Rightarrow> node_entry \<Rightarrow> bool" where
  "entry_matched ctdb_nodes entry =
     (case py_index ctdb_nodes (entry_pnn entry) of
        None \<Rightarrow> False
      | Some a \<Rightarrow> entry_node entry = a)"

text \<open>
  The \<open>for entry in desired\<close> loop of \<open>_node_update_check\<close>. \<open>need_reload\<close> holds
  references to the entry dicts of the JSON data; here a reference is the position
  \<open>i\<close> of the entry in \<open>desired\<close>.
\<close>

fun node_update_loop ::
  "string list \<Rightarrow> node_entry list \<Rightarrow> nat \<Rightarrow> string list \<Rightarrow> nat list
     \<Rightarrow> py_error + (string list \<times> nat list)" where
  "node_update_loop ctdb_nodes [] i new_nodes need_reload = Inr (new_nodes, need_reload)"
| "node_update_loop ctdb_nodes (entry # rest) i new_nodes need_reload =
     (let matched = entry_matched ctdb_nodes entry
      in if matched \<and> entry_in_nodes entry
           then node_update_loop ctdb_nodes rest (Suc i) new_nodes need_reload
         else if \<not> entry_in_nodes entry
           then node_update_loop ctdb_nodes rest (Suc i) new_nodes (need_reload @ [i])
         else if int (length ctdb_nodes) > entry_pnn entry
           then Inl (ValueError (Unexpected_pnn (entry_pnn entry) ctdb_nodes))
         else node_update_loop ctdb_nodes rest (Suc i)
                (new_nodes @ [entry_node entry]) (need_reload @ [i]))"

text \<open>\<open>_node_update_check(json_data, nodes_json, real_path)\<close>; the second argument here is
  the nodes file at \<open>real_path\<close>.\<close>

definition node_update_check ::
  "json_data \<Rightarrow> string option
     \<Rightarrow> py_error + (string list \<times> string list \<times> nat list)" where
  "node_update_check data real_file =
     (let desired = get_nodes data;
          ctdb_nodes = read_ctdb_nodes real_file
      in case node_update_loop ctdb_nodes desired 0 [] [] of
           Inl err \<Rightarrow> Inl err
         | Inr (new_nodes, need_reload) \<Rightarrow> Inr (ctdb_nodes, new_nodes, need_reload))"

text \<open>\<open>for entry in need_reload: entry["in_nodes"] = True\<close>, on the entries of the data.\<close>

fun set_in_nodes :: "node_entry list \<Rightarrow> nat list \<Rightarrow> node_entry list" where
  "set_in_nodes entries [] = entries"
| "set_in_nodes entries (i # need_reload) =
     set_in_nodes (entries[i := (entries ! i)\<lparr>entry_in_nodes := True\<rparr>]) need_reload"

definition confirm_entries :: "json_data \<Rightarrow> nat list \<Rightarrow> json_data" where
  "confirm_entries data need_reload =
     (case doc_nodes data of
        None \<Rightarrow> data
      | Some entries \<Rightarrow> data\<lparr>doc_nodes := Some (set_in_nodes entries need_reload)\<rparr>)"

text \<open>
  The second \<open>with\<close> block of \<open>_node_update\<close>: the state file is opened read-write, the
  data loaded again and the check repeated; then the nodes file is written,
  \<open>ctdb reloadnodes\<close> is run (\<open>rc\<close> is its exit status, \<open>check_call\<close> raises when it is
  not 0), and only then are the entries marked and the data dumped.
\<close>

definition node_update_locked :: "int \<Rightarrow> fs_state \<Rightarrow> (py_error + bool) \<times> fs_state" where
  "node_update_locked rc s =
     (let s0 = jfile_open_rw s;
          data = (case json_file s0 of None \<Rightarrow> \<lparr>doc_nodes = None\<rparr> | Some d \<Rightarrow> d)
      in case node_update_check data (nodes_file s0) of
           Inl err \<Rightarrow> (Inl err, s0)
         | Inr (ctdb_nodes, new_nodes, need_reload) \<Rightarrow>
             if new_nodes = [] \<and> need_reload = [] then (Inr False, s0)
             else
               (let all_nodes = ctdb_nodes @ new_nodes;
                    s1 = s0\<lparr>nodes_file := Some (write_nodes_file [] all_nodes)\<rparr>;
                    s2 = s1\<lparr>reloads := Suc (reloads s1)\<rparr>
                in if rc \<noteq> 0 then (Inl (CalledProcessError rc), s2)
                   else (Inr True,
                         s2\<lparr>json_file := Some (confirm_entries data need_reload)\<rparr>)))"

text \<open>
  \<open>_node_update(nodes_json, real_path)\<close>: a first check with the state file opened
  read-only, which returns \<open>False\<close> when there is nothing to do, then the second block.
\<close>

definition node_update :: "int \<Rightarrow> fs_state \<Rightarrow> (py_error + bool) \<times> fs_state" where
  "node_update rc s =
     (case json_file s of
        None \<Rightarrow> (Inl FileNotFoundError, s)
      | Some data \<Rightarrow>
          (case node_update_check data (nodes_file s) of
             Inl err \<Rightarrow> (Inl err, s)
           | Inr (_, test_new_nodes, test_need_reload) \<Rightarrow>
               if test_new_nodes = [] \<and> test_need_reload = [] then (Inr False, s)
               else node_update_locked rc s))"

text \<open>\<open>_node_check(pnn, nodes_json, real_path)\<close>: may this node update the nodes file?\<close>

definition node_check :: "int \<Rightarrow> fs_state \<Rightarrow> py_error + bool" where
  "node_check pnn s =
     (case json_file s of
        None \<Rightarrow> Inl FileNotFoundError
      | Some data \<Rightarrow>
          (let desired = get_nodes data;
               ctdb_nodes = read_ctdb_nodes (nodes_file s)
           in case filter (\<lambda>e. entry_pnn e = pnn) desired of
                [] \<Rightarrow> Inr False
              | my_desired # _ \<Rightarrow>
                  if entry_node my_desired \<notin> set ctdb_nodes then Inr False
                  else Inr True))"

text \<open>
  One turn of the \<open>while True\<close> loop of \<open>manage_nodes\<close>, up to the call of
  \<open>pause_func\<close>: the reconciliation pass of the node \<open>pnn\<close>.
\<close>

definition manage_nodes_pass :: "int \<Rightarrow> int \<Rightarrow> fs_state \<Rightarrow> (py_error + unit) \<times> fs_state" where
  "manage_nodes_pass pnn rc s =
     (case node_check pnn s of
        Inl err \<Rightarrow> (Inl err, s)
      | Inr able \<Rightarrow>
          if able then
            (case node_update rc s of
               (Inl err, s') \<Rightarrow> (Inl err, s')
             | (Inr _, s') \<Rightarrow> (Inr (), s'))
          else (Inr (), s))"

section \<open>The commands (\<open>sambacc/commands/ctdb.py\<close>)\<close>

text \<open>\<open>_ctdb_ok()\<close>: the commands go on only when the environment variable
  \<open>SAMBACC_CTDB\<close> holds the gate value; otherwise \<open>Fail(gate)\<close> is raised.\<close>

definition ctdb_ok :: "string option \<Rightarrow> py_error + unit" where
  "ctdb_ok sambacc_ctdb =
     (if sambacc_ctdb = Some ''ctdb-is-experimental'' then Inr ()
      else Inl (Fail ''ctdb-is-experimental''))"

text \<open>
  What one call of \<open>ctdb.monitor_cluster_meta_updates\<close> does, seen from the loop of
  \<open>ctdb_manage_nodes\<close>: it returns, or it raises. That function is not among the
  sources, so the loop takes the outcomes of its successive calls as a list; when the
  list is used up the loop is still running, with the counter \<open>errors\<close> it has reached.
  \<open>waiter.wait()\<close> is taken to return.
\<close>

datatype call_outcome = Returns | Raises py_error

datatype loop_state = Running nat | Propagated py_error

text \<open>
  The \<open>while True\<close> loop of \<open>ctdb_manage_nodes\<close>: \<open>errors = 0\<close> after a call that
  returned; \<open>KeyboardInterrupt\<close> is raised again at once; any other exception adds one
  to \<open>errors\<close> and is raised again when \<open>errors > 10\<close>.
\<close>

fun ctdb_manage_nodes_loop :: "nat \<Rightarrow> call_outcome list \<Rightarrow> loop_state" where
  "ctdb_manage_nodes_loop errors [] = Running errors"
| "ctdb_manage_nodes_loop errors (Returns # calls) = ctdb_manage_nodes_loop 0 calls"
| "ctdb_manage_nodes_loop errors (Raises err # calls) =
     (if err = KeyboardInterrupt then Propagated err
      else (let errors' = errors + 1
            in if errors' > 10 then Propagated err
               else ctdb_manage_nodes_loop errors' calls))"

definition ctdb_manage_nodes :: "string option \<Rightarrow> call_outcome list \<Rightarrow> loop_state" where
  "ctdb_manage_nodes sambacc_ctdb calls =
     (case ctdb_ok sambacc_ctdb of
        Inl err \<Rightarrow> Propagated err
      | Inr _ \<Rightarrow> ctdb_manage_nodes_loop 0 calls)"

text \<open>
  Modelled from the spec: \<open>ctdb.refresh_node_in_cluster_meta\<close>, which \<open>ctdb_set_node\<close> calls
  and which is not among the sources. The specification (4.4, 7): when an entry for the
  identity and claimed pnn exists and matches, the call succeeds as a no-op refresh;
  \<open>NodeNotPresent\<close> tells the caller that the node is not in the document, so that it
  falls back to registration. An entry matches when it carries the claimed pnn and the
  node's address (the entries of the document hold no identity).
\<close>

definition refresh_node_in_cluster_meta ::
  "string \<Rightarrow> string \<Rightarrow> int \<Rightarrow> fs_state \<Rightarrow> (py_error + unit) \<times> fs_state" where
  "refresh_node_in_cluster_meta identity node pnn s =
     (if list_ex (\<lambda>e. entry_pnn e = pnn \<and> entry_node e = node) (state_entries s)
      then (Inr (), s)
      else (Inl NodeNotPresent, s))"

text \<open>
  Modelled from the spec: \<open>ctdb.add_node_to_cluster_meta\<close>, not among the sources either.
  The specification (4.4): an absent node is appended as a new entry, and a pnn that is
  taken fails with the duplicate-pnn error; this is what \<open>add_node_to_statefile\<close> of
  \<open>sambacc/ctdb.py\<close> does.
\<close>

definition add_node_to_cluster_meta ::
  "string \<Rightarrow> string \<Rightarrow> int \<Rightarrow> bool \<Rightarrow> fs_state \<Rightarrow> (py_error + unit) \<times> fs_state" where
  "add_node_to_cluster_meta identity node pnn in_nodes s =
     add_node_to_statefile node pnn in_nodes s"

text \<open>
  \<open>ctdb_set_node(ctx)\<close>. Of \<open>NodeParams\<close> the command uses \<open>node_number\<close>, \<open>identity\<close>,
  \<open>node_ip_addr\<close> and \<open>persistent_path\<close>, which are arguments here;
  \<open>pnn = int(expected_pnn or 0)\<close> and \<open>in_nodes = (expected_pnn == 0)\<close>.
\<close>

definition ctdb_set_node ::
  "string option \<Rightarrow> string \<Rightarrow> string \<Rightarrow> int option \<Rightarrow> string \<Rightarrow> fs_state
     \<Rightarrow> (py_error + unit) \<times> fs_state" where
  "ctdb_set_node sambacc_ctdb identity node_ip_addr node_number persistent_path s =
     (case ctdb_ok sambacc_ctdb of
        Inl err \<Rightarrow> (Inl err, s)
      | Inr _ \<Rightarrow>
          (let expected_pnn = node_number;
               pnn = (case expected_pnn of None \<Rightarrow> 0 | Some n \<Rightarrow> n)
           in case refresh_node_in_cluster_meta identity node_ip_addr pnn s of
                (Inr _, s1) \<Rightarrow> (Inr (), s1)
              | (Inl err, s1) \<Rightarrow>
                  if err \<noteq> NodeNotPresent then (Inl err, s1)
                  else
                    (case add_node_to_cluster_meta identity node_ip_addr pnn
                            (expected_pnn = Some 0) s1 of
                       (Inl err', s2) \<Rightarrow> (Inl err', s2)
                     | (Inr _, s2) \<Rightarrow>
                         if expected_pnn = Some 0
                         then ensure_ctdb_node_present node_ip_addr persistent_path
                                expected_pnn s2
                         else (Inr (), s2))))"

section \<open>Notions used in the statements\<close>

text \<open>
  An entry that the loop of \<open>_node_update_check\<close> takes past its first two tests:
  marked \<open>in_nodes\<close>, but its address is not at position \<open>pnn\<close> of the nodes list.
\<close>

definition needs_append :: "string list \<Rightarrow> node_entry \<Rightarrow> bool" where
  "needs_append ctdb_nodes entry =
     (entry_in_nodes entry \<and> \<not> entry_matched ctdb_nodes entry)"

text \<open>
  The positions, counted from \<open>i\<close>, of the entries that are not both marked and
  matched: what \<open>need_reload\<close> holds after a loop that did not raise.
\<close>

fun pending_refs :: "string list \<Rightarrow> node_entry list \<Rightarrow> nat \<Rightarrow> nat list" where
  "pending_refs ctdb_nodes [] i = []"
| "pending_refs ctdb_nodes (entry # rest) i =
     (if entry_in_nodes entry \<and> entry_matched ctdb_nodes entry
      then pending_refs ctdb_nodes rest (Suc i)
      else i # pending_refs ctdb_nodes rest (Suc i))"

section \<open>States of \<open>tests/test_ctdb.py\<close> and of the specification's scenarios\<close>

definition node_10 :: node_entry where
  "node_10 = \<lparr>entry_node = ''10.0.0.10'', entry_pnn = 0, entry_in_nodes = True\<rparr>"

definition node_11 :: node_entry where
  "node_11 = \<lparr>entry_node = ''10.0.0.11'', entry_pnn = 1, entry_in_nodes = False\<rparr>"

text \<open>The state file lists 10.0.0.10 (pnn 0, in nodes) and 10.0.0.11 (pnn 1, not yet in
  nodes); the nodes file holds the line 10.0.0.10.\<close>

definition scenario_B :: fs_state where
  "scenario_B =
     \<lparr>json_file = Some \<lparr>doc_nodes = Some [node_10, node_11]\<rparr>,
      nodes_file = Some (write_nodes_file [] [''10.0.0.10'']),
      canon_link = None,
      reloads = 0\<rparr>"

text \<open>The state file lists pnn 0 and pnn 2, both marked as in nodes, and no pnn 1; the
  nodes file holds the line 10.0.0.10.\<close>

definition scenario_gap :: fs_state where
  "scenario_gap =
     \<lparr>json_file = Some \<lparr>doc_nodes = Some
        [node_10, \<lparr>entry_node = ''10.0.0.12'', entry_pnn = 2, entry_in_nodes = True\<rparr>]\<rparr>,
      nodes_file = Some (write_nodes_file [] [''10.0.0.10'']),
      canon_link = None,
      reloads = 0\<rparr>"

text \<open>The nodes file has another address at position 1 than the marked entry for pnn 1.\<close>

definition scenario_C :: fs_state where
  "scenario_C =
     \<lparr>json_file = Some \<lparr>doc_nodes = Some [node_10, node_11\<lparr>entry_in_nodes := True\<rparr>]\<rparr>,
      nodes_file = Some (write_nodes_file [] [''10.0.0.10'', ''10.0.0.12'', ''10.0.0.13'']),
      canon_link = None,
      reloads = 0\<rparr>"

text \<open>No state file; the nodes file holds 10.0.0.10 and 10.0.0.11 and is linked.\<close>

definition scenario_two_nodes :: fs_state where
  "scenario_two_nodes =
     \<lparr>json_file = None,
      nodes_file = Some (write_nodes_file [] [''10.0.0.10'', ''10.0.0.11'']),
      canon_link = Some ''/nodes'',
      reloads = 0\<rparr>"



section \<open>Facts about the text functions\<close>

lemma isspace_LF: "isspace LF"
  by (simp add: isspace_def LF_def)

lemma isspace_CR: "isspace CR"
  by (simp add: isspace_def CR_def)


lemma write_nodes_file_concat:
  "write_nodes_file fh ns = fh @ concat (map (\<lambda>n. n @ [LF]) ns)"
  by (induction ns arbitrary: fh) simp_all

lemma read_nodes_loop_map:
  "read_nodes_loop entries ls = entries @ map py_strip ls"
  by (induction ls arbitrary: entries) simp_all

lemma py_lines_from_line:
  "LF \<notin> set n \<Longrightarrow> CR \<notin> set n \<Longrightarrow>
   py_lines_from cur (n @ LF # rest) = (cur @ n @ [LF]) # py_lines_from [] rest"
  by (induction n arbitrary: cur) auto

lemma py_lines_written:
  "\<forall>n \<in> set ns. LF \<notin> set n \<and> CR \<notin> set n \<Longrightarrow>
   py_lines_from [] (concat (map (\<lambda>n. n @ [LF]) ns)) = map (\<lambda>n. n @ [LF]) ns"
  by (induction ns) (simp_all add: py_lines_from_line)

lemma py_strip_fixed_dropWhile:
  assumes "py_strip n = n"
  shows "dropWhile isspace n = n" and "dropWhile isspace (rev n) = rev n"
proof -
  have a: "length (dropWhile isspace (rev (dropWhile isspace n))) = length n"
    using assms by (metis length_rev py_strip_def)
  have b: "length (dropWhile isspace (rev (dropWhile isspace n)))
             \<le> length (dropWhile isspace n)"
    by (metis length_dropWhile_le length_rev)
  have c: "length (dropWhile isspace n) \<le> length n"
    by (rule length_dropWhile_le)
  from a b c have "length (dropWhile isspace n) = length n" by simp
  then show d: "dropWhile isspace n = n"
    by (metis append_eq_conv_conj append_self_conv2 takeWhile_dropWhile_id length_0_conv
        add_cancel_right_left length_append)
  from assms d show "dropWhile isspace (rev n) = rev n"
    by (metis py_strip_def rev_rev_ident)
qed

lemma py_strip_line:
  assumes "py_strip n = n"
  shows "py_strip (n @ [LF]) = n"
proof (cases n)
  case Nil
  then show ?thesis by (simp add: py_strip_def isspace_LF)
next
  case (Cons c cs)
  from py_strip_fixed_dropWhile [OF assms]
  have d1: "dropWhile isspace n = n" and d2: "dropWhile isspace (rev n) = rev n" .
  from d1 Cons have "\<not> isspace c"
    by (metis dropWhile.simps(2) length_dropWhile_le impossible_Cons)
  with Cons have "dropWhile isspace (n @ [LF]) = n @ [LF]" by simp
  then show ?thesis by (simp add: py_strip_def isspace_LF d2)
qed

lemma read_written_nodes:
  assumes "\<forall>n \<in> set ns. clean_address n"
  shows "read_nodes_file (write_nodes_file [] ns) = ns"
proof -
  from assms have nl: "\<forall>n \<in> set ns. LF \<notin> set n \<and> CR \<notin> set n"
    by (simp add: clean_address_def)
  from assms have st: "\<forall>n \<in> set ns. py_strip (n @ [LF]) = n"
    by (simp add: clean_address_def py_strip_line)
  have "read_nodes_file (write_nodes_file [] ns) = map py_strip (map (\<lambda>n. n @ [LF]) ns)"
    by (simp add: read_nodes_file_def py_lines_def write_nodes_file_concat
        read_nodes_loop_map py_lines_written [OF nl])
  also have "\<dots> = ns" using st by (induction ns) simp_all
  finally show ?thesis .
qed

lemma no_space_clean:
  assumes "\<forall>c \<in> set a. \<not> isspace c"
  shows "clean_address a"
proof -
  have "dropWhile isspace a = a" using assms by (cases a) simp_all
  moreover have "dropWhile isspace (rev a) = rev a"
    using assms by (cases "rev a") (simp, metis dropWhile.simps(2) list.set_intros(1) set_rev)
  ultimately have "py_strip a = a" by (simp add: py_strip_def)
  moreover have "LF \<notin> set a" "CR \<notin> set a"
    using assms isspace_LF isspace_CR by blast+
  ultimately show ?thesis by (simp add: clean_address_def)
qed











lemma read_ctdb_nodes_written:
  "\<forall>n \<in> set ns. clean_address n \<Longrightarrow> read_ctdb_nodes (Some (write_nodes_file [] ns)) = ns"
  by (simp add: read_ctdb_nodes_def read_written_nodes)


section \<open>Claims about the nodes file\<close>

text \<open>
  C9. Writing a nodes list and reading it back is the identity: for every list of
  addresses none of which holds a whitespace (or line-end) character,
  \<open>read_nodes_file\<close> applied to what \<open>write_nodes_file\<close> wrote to an empty file returns
  the same list, in the same order.
\<close>

theorem write_then_read_nodes_file:
  assumes "\<forall>a \<in> set ctdb_nodes. \<forall>c \<in> set a. \<not> isspace c"
  shows "read_nodes_file (write_nodes_file [] ctdb_nodes) = ctdb_nodes"
  using assms by (intro read_written_nodes ballI no_space_clean) blast

theorem write_then_read_nodes_file_witness:
  "read_nodes_file (write_nodes_file [] [''10.0.0.10'', ''10.0.0.11'', ''''])
     = [''10.0.0.10'', ''10.0.0.11'', '''']"
  using write_then_read_nodes_file [of "[''10.0.0.10'', ''10.0.0.11'', '''']"]
  by (simp add: isspace_def)

text \<open>
  C7. Reading the nodes list when the file is absent returns the empty list and no
  error; when the file exists the result is its lines, in order, each one stripped:
  one address per line. In particular a file of clean addresses, each followed by a
  line end, is read back as those addresses.
\<close>

theorem read_ctdb_nodes_absent_or_lines:
  "read_ctdb_nodes None = []
   \<and> read_ctdb_nodes (Some fh) = map py_strip (py_lines fh)
   \<and> ((\<forall>a \<in> set addrs. clean_address a)
        \<longrightarrow> read_ctdb_nodes (Some (concat (map (\<lambda>a. a @ [LF]) addrs))) = addrs)"
proof (intro conjI impI)
  show "read_ctdb_nodes None = []" by (simp add: read_ctdb_nodes_def)
  show "read_ctdb_nodes (Some fh) = map py_strip (py_lines fh)"
    by (simp add: read_ctdb_nodes_def read_nodes_file_def read_nodes_loop_map)
  assume "\<forall>a \<in> set addrs. clean_address a"
  from read_ctdb_nodes_written [OF this]
  show "read_ctdb_nodes (Some (concat (map (\<lambda>a. a @ [LF]) addrs))) = addrs"
    by (simp add: write_nodes_file_concat)
qed

theorem read_ctdb_nodes_absent_or_lines_witness:
  "read_ctdb_nodes None = []
   \<and> read_ctdb_nodes (Some (concat (map (\<lambda>a. a @ [LF]) [''10.0.0.10'', ''10.0.0.11''])))
       = [''10.0.0.10'', ''10.0.0.11'']"
proof -
  have "\<forall>a \<in> set [''10.0.0.10'', ''10.0.0.11'']. clean_address a"
    by (simp add: clean_address_def py_strip_def isspace_def LF_def CR_def)
  with read_ctdb_nodes_absent_or_lines [of "[]" "[''10.0.0.10'', ''10.0.0.11'']"]
  show ?thesis by blast
qed

section \<open>Facts about the reconciliation loop\<close>

lemma node_update_loop_error:
  "\<exists>e \<in> set es. needs_append L e \<and> entry_pnn e < int (length L) \<Longrightarrow>
   \<exists>p. node_update_loop L es i new nr = Inl (ValueError (Unexpected_pnn p L))"
proof (induction es arbitrary: i new nr)
  case Nil
  then show ?case by simp
next
  case (Cons a es)
  show ?case
  proof (cases "needs_append L a \<and> entry_pnn a < int (length L)")
    case True
    then show ?thesis by (simp add: needs_append_def)
  next
    case False
    with Cons.prems have "\<exists>e \<in> set es. needs_append L e \<and> entry_pnn e < int (length L)"
      by auto
    from Cons.IH [OF this] False show ?thesis
      by (auto simp: needs_append_def)
  qed
qed

lemma node_update_loop_ok:
  "\<forall>e \<in> set es. needs_append L e \<longrightarrow> int (length L) \<le> entry_pnn e \<Longrightarrow>
   node_update_loop L es i new nr
     = Inr (new @ map entry_node (filter (needs_append L) es), nr @ pending_refs L es i)"
  by (induction es arbitrary: i new nr) (auto simp: needs_append_def)

lemma pending_refs_empty:
  "pending_refs L es i = [] \<longleftrightarrow> (\<forall>e \<in> set es. entry_in_nodes e \<and> entry_matched L e)"
  by (induction es arbitrary: i) auto

lemma node_update_check_error:
  assumes "\<exists>e \<in> set (get_nodes data). needs_append (read_ctdb_nodes f) e
             \<and> entry_pnn e < int (length (read_ctdb_nodes f))"
  shows "\<exists>p. node_update_check data f
               = Inl (ValueError (Unexpected_pnn p (read_ctdb_nodes f)))"
proof -
  from node_update_loop_error [OF assms, of 0 "[]" "[]"]
  obtain p where "node_update_loop (read_ctdb_nodes f) (get_nodes data) 0 [] []
                    = Inl (ValueError (Unexpected_pnn p (read_ctdb_nodes f)))" ..
  then show ?thesis by (simp add: node_update_check_def)
qed

lemma node_update_check_ok:
  assumes "\<forall>e \<in> set (get_nodes data). needs_append (read_ctdb_nodes f) e
             \<longrightarrow> int (length (read_ctdb_nodes f)) \<le> entry_pnn e"
  shows "node_update_check data f
           = Inr (read_ctdb_nodes f,
                  map entry_node (filter (needs_append (read_ctdb_nodes f)) (get_nodes data)),
                  pending_refs (read_ctdb_nodes f) (get_nodes data) 0)"
  by (simp add: node_update_check_def Let_def node_update_loop_ok [OF assms])

lemma node_update_check_cases:
  "(\<exists>p. node_update_check data f = Inl (ValueError (Unexpected_pnn p (read_ctdb_nodes f)))
      \<and> (\<exists>e \<in> set (get_nodes data). needs_append (read_ctdb_nodes f) e
             \<and> entry_pnn e < int (length (read_ctdb_nodes f))))
   \<or> (node_update_check data f
           = Inr (read_ctdb_nodes f,
                  map entry_node (filter (needs_append (read_ctdb_nodes f)) (get_nodes data)),
                  pending_refs (read_ctdb_nodes f) (get_nodes data) 0)
      \<and> (\<forall>e \<in> set (get_nodes data). needs_append (read_ctdb_nodes f) e
             \<longrightarrow> int (length (read_ctdb_nodes f)) \<le> entry_pnn e))"
proof (cases "\<exists>e \<in> set (get_nodes data). needs_append (read_ctdb_nodes f) e
             \<and> entry_pnn e < int (length (read_ctdb_nodes f))")
  case True
  with node_update_check_error [OF True] show ?thesis by blast
next
  case False
  then have ok: "\<forall>e \<in> set (get_nodes data). needs_append (read_ctdb_nodes f) e
             \<longrightarrow> int (length (read_ctdb_nodes f)) \<le> entry_pnn e"
    by (meson not_le)
  with node_update_check_ok [OF ok] show ?thesis by blast
qed

lemma node_update_noop:
  assumes "json_file s = Some data"
      and "node_update_check data (nodes_file s) = Inr (ctdb_nodes, [], [])"
  shows "node_update rc s = (Inr False, s)"
  using assms by (simp add: node_update_def)

lemma node_update_commit:
  assumes "json_file s = Some data"
      and "node_update_check data (nodes_file s) = Inr (ctdb_nodes, new_nodes, need_reload)"
      and "new_nodes \<noteq> [] \<or> need_reload \<noteq> []"
  shows "node_update rc s =
           (if rc \<noteq> 0
            then (Inl (CalledProcessError rc),
                  s\<lparr>nodes_file := Some (write_nodes_file [] (ctdb_nodes @ new_nodes)),
                    reloads := Suc (reloads s)\<rparr>)
            else (Inr True,
                  s\<lparr>nodes_file := Some (write_nodes_file [] (ctdb_nodes @ new_nodes)),
                    reloads := Suc (reloads s),
                    json_file := Some (confirm_entries data need_reload)\<rparr>))"
  using assms
  by (auto simp: node_update_def node_update_locked_def jfile_open_rw_def Let_def)




lemma node_update_loop_error_shape:
  "node_update_loop L es i new nr = Inl err \<Longrightarrow>
   \<exists>p. err = ValueError (Unexpected_pnn p L) \<and> p < int (length L)"
  by (induction es arbitrary: i new nr) (auto simp: Let_def split: if_splits)

lemma node_update_check_error_shape:
  "node_update_check data f = Inl err \<Longrightarrow>
   \<exists>p. err = ValueError (Unexpected_pnn p (read_ctdb_nodes f))
        \<and> p < int (length (read_ctdb_nodes f))"
  by (auto simp: node_update_check_def Let_def split: sum.splits
      dest: node_update_loop_error_shape)

lemma pending_refs_needs_append:
  "\<exists>e \<in> set es. needs_append L e \<Longrightarrow> pending_refs L es i \<noteq> []"
  by (auto simp: pending_refs_empty needs_append_def)

section \<open>Claims about the reconciliation pass\<close>

text \<open>
  C1. The claim: an entry with \<open>in_nodes = false\<close> whose address is not at position
  \<open>pnn\<close> of the nodes list is appended to the nodes list and marked by one pass; from
  the state file [10.0.0.10 (0, true), 10.0.0.11 (1, false)] and the nodes list
  [10.0.0.10] one pass gives the nodes list [10.0.0.10, 10.0.0.11]. What the code does
  there: the pass returns \<open>True\<close>, runs the reload once and marks the entry, but the
  nodes list it writes is still [10.0.0.10], since the loop of \<open>_node_update_check\<close>
  puts an unmarked entry in \<open>need_reload\<close> and never in \<open>new_nodes\<close>.
\<close>

theorem scenario_B_marks_without_append:
  "node_update 0 scenario_B
     = (Inr True,
        scenario_B\<lparr>json_file :=
                     Some \<lparr>doc_nodes = Some [node_10, node_11\<lparr>entry_in_nodes := True\<rparr>]\<rparr>,
                   reloads := 1\<rparr>)
   \<and> read_ctdb_nodes (nodes_file (snd (node_update 0 scenario_B))) = [''10.0.0.10'']
   \<and> manage_nodes_pass 0 0 scenario_B = (Inr (), snd (node_update 0 scenario_B))"
  by code_simp

text \<open>
  C2, as the claim states it, fails: with pnn 0 and pnn 2 marked in the state file and
  only 10.0.0.10 in the nodes file, the pass does not fail. It appends the address of
  pnn 2 at position 1 and returns \<open>True\<close>.
\<close>

theorem scenario_gap_is_accepted:
  "fst (node_update 0 scenario_gap) = Inr True
   \<and> read_ctdb_nodes (nodes_file (snd (node_update 0 scenario_gap)))
       = [''10.0.0.10'', ''10.0.0.12'']"
  by code_simp

text \<open>
  C2, amended. For the entries marked \<open>in_nodes\<close> whose address is missing or different
  at position \<open>pnn\<close> of the nodes list read from the file, the decision compares \<open>pnn\<close>
  with the length of that list as read. If one of them has a \<open>pnn\<close> below that length,
  the pass fails with the \<open>ValueError\<close> (unexpected pnn) and leaves the state file, the
  nodes file and the reload count as they were. That is the only rejection: whenever
  the decision fails, it is with this error for a \<open>pnn\<close> below the length, so a \<open>pnn\<close>
  beyond the end of the list is never rejected. And when no entry with a missing or
  different address has a \<open>pnn\<close> below the length, the decision succeeds, the
  addresses of the marked ones are among \<open>new_nodes\<close> in the order of the state file,
  and if there is one the pass (with a reload that succeeds) writes the nodes read
  followed by \<open>new_nodes\<close> and returns \<open>True\<close>.
\<close>

theorem marked_entry_rejected_only_below_length:
  assumes "json_file s = Some data"
  shows
    "((\<exists>e \<in> set (get_nodes data).
         needs_append (read_ctdb_nodes (nodes_file s)) e
         \<and> entry_pnn e < int (length (read_ctdb_nodes (nodes_file s))))
      \<longrightarrow> (\<exists>p. node_update rc s
                 = (Inl (ValueError (Unexpected_pnn p (read_ctdb_nodes (nodes_file s)))), s)))
     \<and> (\<forall>err. node_update_check data (nodes_file s) = Inl err
          \<longrightarrow> (\<exists>p. err = ValueError (Unexpected_pnn p (read_ctdb_nodes (nodes_file s)))
                   \<and> p < int (length (read_ctdb_nodes (nodes_file s)))))
     \<and> ((\<forall>e \<in> set (get_nodes data).
            \<not> entry_matched (read_ctdb_nodes (nodes_file s)) e
            \<longrightarrow> int (length (read_ctdb_nodes (nodes_file s))) \<le> entry_pnn e)
        \<longrightarrow> (\<exists>new_nodes need_reload.
               node_update_check data (nodes_file s)
                 = Inr (read_ctdb_nodes (nodes_file s), new_nodes, need_reload)
               \<and> subseq (map entry_node
                           (filter (needs_append (read_ctdb_nodes (nodes_file s)))
                              (get_nodes data)))
                         new_nodes
               \<and> ((\<exists>e \<in> set (get_nodes data).
                      needs_append (read_ctdb_nodes (nodes_file s)) e)
                   \<longrightarrow> node_update 0 s
                         = (Inr True,
                            s\<lparr>nodes_file :=
                                 Some (write_nodes_file []
                                         (read_ctdb_nodes (nodes_file s) @ new_nodes)),
                              reloads := Suc (reloads s),
                              json_file := Some (confirm_entries data need_reload)\<rparr>))))"
proof (intro conjI impI allI)
  assume "\<exists>e \<in> set (get_nodes data).
         needs_append (read_ctdb_nodes (nodes_file s)) e
         \<and> entry_pnn e < int (length (read_ctdb_nodes (nodes_file s)))"
  from node_update_check_error [OF this]
  obtain p where "node_update_check data (nodes_file s)
                    = Inl (ValueError (Unexpected_pnn p (read_ctdb_nodes (nodes_file s))))" ..
  with assms have "node_update rc s
                 = (Inl (ValueError (Unexpected_pnn p (read_ctdb_nodes (nodes_file s)))), s)"
    by (simp add: node_update_def)
  then show "\<exists>p. node_update rc s
                 = (Inl (ValueError (Unexpected_pnn p (read_ctdb_nodes (nodes_file s)))), s)" ..
next
  fix err
  assume "node_update_check data (nodes_file s) = Inl err"
  then show "\<exists>p. err = ValueError (Unexpected_pnn p (read_ctdb_nodes (nodes_file s)))
                   \<and> p < int (length (read_ctdb_nodes (nodes_file s)))"
    by (rule node_update_check_error_shape)
next
  let ?L = "read_ctdb_nodes (nodes_file s)"
  let ?new = "map entry_node (filter (needs_append ?L) (get_nodes data))"
  let ?nr = "pending_refs ?L (get_nodes data) 0"
  assume "\<forall>e \<in> set (get_nodes data). \<not> entry_matched ?L e \<longrightarrow> int (length ?L) \<le> entry_pnn e"
  then have "\<forall>e \<in> set (get_nodes data). needs_append ?L e \<longrightarrow> int (length ?L) \<le> entry_pnn e"
    by (simp add: needs_append_def)
  from node_update_check_ok [OF this]
  have chk: "node_update_check data (nodes_file s) = Inr (?L, ?new, ?nr)" .
  have pass: "node_update 0 s
                = (Inr True,
                   s\<lparr>nodes_file := Some (write_nodes_file [] (?L @ ?new)),
                     reloads := Suc (reloads s),
                     json_file := Some (confirm_entries data ?nr)\<rparr>)"
    if "\<exists>e \<in> set (get_nodes data). needs_append ?L e"
  proof -
    from that have "?new \<noteq> [] \<or> ?nr \<noteq> []" by (simp add: pending_refs_needs_append)
    from node_update_commit [OF assms chk this, of 0] show ?thesis by simp
  qed
  from chk pass
  show "\<exists>new_nodes need_reload.
               node_update_check data (nodes_file s) = Inr (?L, new_nodes, need_reload)
               \<and> subseq ?new new_nodes
               \<and> ((\<exists>e \<in> set (get_nodes data). needs_append ?L e)
                   \<longrightarrow> node_update 0 s
                         = (Inr True,
                            s\<lparr>nodes_file := Some (write_nodes_file [] (?L @ new_nodes)),
                              reloads := Suc (reloads s),
                              json_file := Some (confirm_entries data need_reload)\<rparr>))"
    by (intro exI [of _ ?new] exI [of _ ?nr]) simp
qed

theorem marked_entry_rejected_only_below_length_witness:
  "(\<exists>p. node_update 0 scenario_C
          = (Inl (ValueError (Unexpected_pnn p [''10.0.0.10'', ''10.0.0.12'', ''10.0.0.13''])),
             scenario_C))
   \<and> (\<exists>new_nodes need_reload.
         subseq [''10.0.0.12''] new_nodes
         \<and> node_update 0 scenario_gap
             = (Inr True,
                scenario_gap\<lparr>nodes_file := Some (write_nodes_file [] ([''10.0.0.10''] @ new_nodes)),
                             reloads := 1,
                             json_file := Some (confirm_entries
                               \<lparr>doc_nodes = Some
                                  [node_10,
                                   \<lparr>entry_node = ''10.0.0.12'', entry_pnn = 2,
                                      entry_in_nodes = True\<rparr>]\<rparr> need_reload)\<rparr>))"
proof -
  have js: "json_file scenario_C
              = Some \<lparr>doc_nodes = Some [node_10, node_11\<lparr>entry_in_nodes := True\<rparr>]\<rparr>"
    by (simp add: scenario_C_def)
  have rd: "read_ctdb_nodes (nodes_file scenario_C)
              = [''10.0.0.10'', ''10.0.0.12'', ''10.0.0.13'']"
    by code_simp
  have bad: "\<exists>e \<in> set (get_nodes \<lparr>doc_nodes = Some [node_10, node_11\<lparr>entry_in_nodes := True\<rparr>]\<rparr>).
         needs_append (read_ctdb_nodes (nodes_file scenario_C)) e
         \<and> entry_pnn e < int (length (read_ctdb_nodes (nodes_file scenario_C)))"
    unfolding rd
    by (simp add: get_nodes_def needs_append_def entry_matched_def py_index_def
        node_10_def node_11_def)
  from marked_entry_rejected_only_below_length [OF js, of 0] bad rd
  have first: "\<exists>p. node_update 0 scenario_C
          = (Inl (ValueError (Unexpected_pnn p [''10.0.0.10'', ''10.0.0.12'', ''10.0.0.13''])),
             scenario_C)"
    by simp
  let ?gap = "\<lparr>doc_nodes = Some
                 [node_10,
                  \<lparr>entry_node = ''10.0.0.12'', entry_pnn = 2, entry_in_nodes = True\<rparr>]\<rparr>"
  have jg: "json_file scenario_gap = Some ?gap" by (simp add: scenario_gap_def)
  have rg: "read_ctdb_nodes (nodes_file scenario_gap) = [''10.0.0.10'']" by code_simp
  have r0: "reloads scenario_gap = 0" by (simp add: scenario_gap_def)
  have beyond: "\<forall>e \<in> set (get_nodes ?gap).
            \<not> entry_matched (read_ctdb_nodes (nodes_file scenario_gap)) e
            \<longrightarrow> int (length (read_ctdb_nodes (nodes_file scenario_gap))) \<le> entry_pnn e"
    unfolding rg
    by (simp add: get_nodes_def entry_matched_def py_index_def node_10_def)
  have some: "\<exists>e \<in> set (get_nodes ?gap).
                needs_append (read_ctdb_nodes (nodes_file scenario_gap)) e"
    unfolding rg
    by (simp add: get_nodes_def needs_append_def entry_matched_def py_index_def node_10_def)
  have flt: "map entry_node (filter (needs_append [''10.0.0.10'']) (get_nodes ?gap))
               = [''10.0.0.12'']"
    by (simp add: get_nodes_def needs_append_def entry_matched_def py_index_def node_10_def)
  from marked_entry_rejected_only_below_length [OF jg, of 0] beyond some
  have second: "\<exists>new_nodes need_reload.
         subseq [''10.0.0.12''] new_nodes
         \<and> node_update 0 scenario_gap
             = (Inr True,
                scenario_gap\<lparr>nodes_file := Some (write_nodes_file [] ([''10.0.0.10''] @ new_nodes)),
                             reloads := 1,
                             json_file := Some (confirm_entries ?gap need_reload)\<rparr>)"
    unfolding rg flt r0 by auto
  from first second show ?thesis by blast
qed




text \<open>
  C4. The claim: after a pass that completed, a second pass with nothing changed in
  between finds nothing to do and writes nothing. What the code does after the pass
  of C1 on the state of scenario B: the entry for pnn 1 is now marked but its address
  is not in the nodes file, so the second pass appends 10.0.0.11, writes the nodes
  file, runs the reload a second time and returns \<open>True\<close>; only the third pass finds
  nothing to do.
\<close>

theorem scenario_B_second_pass_writes:
  "node_update 0 (snd (node_update 0 scenario_B))
     = (Inr True,
        scenario_B\<lparr>json_file :=
                     Some \<lparr>doc_nodes = Some [node_10, node_11\<lparr>entry_in_nodes := True\<rparr>]\<rparr>,
                   nodes_file := Some (write_nodes_file [] [''10.0.0.10'', ''10.0.0.11'']),
                   reloads := 2\<rparr>)
   \<and> fst (node_update 0 (snd (node_update 0 (snd (node_update 0 scenario_B))))) = Inr False"
  by code_simp

section \<open>Registration\<close>

lemma has_pnn_iff: "has_pnn pnn es \<longleftrightarrow> (\<exists>e \<in> set es. entry_pnn e = pnn)"
  by (induction es) auto

lemma add_node_duplicate:
  assumes "\<exists>e \<in> set (state_entries s). entry_pnn e = pnn"
  shows "add_node_to_statefile node pnn in_nodes s = (Inl (ValueError Duplicate_pnn), s)"
proof (cases "json_file s")
  case None
  with assms show ?thesis by (simp add: state_entries_def)
next
  case (Some data)
  with assms have "has_pnn pnn (get_nodes data)" by (simp add: state_entries_def has_pnn_iff)
  with Some show ?thesis
    by (simp add: add_node_to_statefile_def jfile_open_rw_def update_statefile_def)
qed

lemma add_node_fresh:
  assumes "\<not> (\<exists>e \<in> set (state_entries s). entry_pnn e = pnn)"
  shows "fst (add_node_to_statefile node pnn in_nodes s) = Inr ()"
    and "state_entries (snd (add_node_to_statefile node pnn in_nodes s))
           = state_entries s @ [\<lparr>entry_node = node, entry_pnn = pnn, entry_in_nodes = in_nodes\<rparr>]"
proof -
  from assms have "\<not> has_pnn pnn (state_entries s)" by (simp add: has_pnn_iff)
  then show "fst (add_node_to_statefile node pnn in_nodes s) = Inr ()"
    and "state_entries (snd (add_node_to_statefile node pnn in_nodes s))
           = state_entries s @ [\<lparr>entry_node = node, entry_pnn = pnn, entry_in_nodes = in_nodes\<rparr>]"
    by (cases "json_file s";
        simp add: add_node_to_statefile_def jfile_open_rw_def update_statefile_def
          state_entries_def get_nodes_def)+
qed

lemma run_registrations_Cons:
  "fst (run_registrations ((n, p, i) # rest) s)
     = fst (add_node_to_statefile n p i s)
       # fst (run_registrations rest (snd (add_node_to_statefile n p i s)))"
  by (simp split: prod.splits)

declare run_registrations.simps(2) [simp del]

lemma registered_none:
  "\<exists>e \<in> set (state_entries s). entry_pnn e = pnn \<Longrightarrow>
   registered pnn reqs (fst (run_registrations reqs s)) = 0"
proof (induction reqs arbitrary: s)
  case Nil
  then show ?case by (simp add: registered_def)
next
  case (Cons req reqs)
  obtain n p i where req: "req = (n, p, i)" by (cases req)
  show ?case
  proof (cases "\<exists>e \<in> set (state_entries s). entry_pnn e = p")
    case True
    from Cons.IH [OF Cons.prems] show ?thesis
      by (simp add: req run_registrations_Cons add_node_duplicate [OF True] registered_def)
  next
    case False
    with Cons.prems have ne: "p \<noteq> pnn" by auto
    let ?s1 = "snd (add_node_to_statefile n p i s)"
    from Cons.prems add_node_fresh(2) [OF False, of n i]
    have "\<exists>e \<in> set (state_entries ?s1). entry_pnn e = pnn" by auto
    from Cons.IH [OF this] ne show ?thesis
      by (simp add: req run_registrations_Cons registered_def)
  qed
qed

lemma registered_at_most_once:
  "registered pnn reqs (fst (run_registrations reqs s)) \<le> 1"
proof (induction reqs arbitrary: s)
  case Nil
  then show ?case by (simp add: registered_def)
next
  case (Cons req reqs)
  obtain n p i where req: "req = (n, p, i)" by (cases req)
  let ?s1 = "snd (add_node_to_statefile n p i s)"
  show ?case
  proof (cases "\<exists>e \<in> set (state_entries s). entry_pnn e = p")
    case True
    from Cons.IH [of s] show ?thesis
      by (simp add: req run_registrations_Cons add_node_duplicate [OF True] registered_def)
  next
    case False
    show ?thesis
    proof (cases "p = pnn")
      case True
      from add_node_fresh(2) [OF False, of n i] True
      have "\<exists>e \<in> set (state_entries ?s1). entry_pnn e = pnn" by auto
      from registered_none [OF this, of reqs] True show ?thesis
        by (auto simp: req run_registrations_Cons registered_def)
    next
      case ne: False
      from Cons.IH [of ?s1] ne show ?thesis
        by (simp add: req run_registrations_Cons registered_def)
    qed
  qed
qed

text \<open>
  C5. Registering a node with a pnn that an entry of the state file already carries
  raises \<open>ValueError("duplicate pnn")\<close> and leaves the state file as it was. In any
  sequence of registrations, from any state, at most one registration for a given
  pnn succeeds; and two registrations for a pnn that is free at the start give exactly
  one success, the first, and one duplicate-pnn failure.
\<close>

theorem duplicate_pnn_registration:
  "((\<exists>e \<in> set (state_entries s). entry_pnn e = pnn)
      \<longrightarrow> add_node_to_statefile node pnn in_nodes s = (Inl (ValueError Duplicate_pnn), s))
   \<and> registered pnn reqs (fst (run_registrations reqs s)) \<le> 1
   \<and> (\<not> (\<exists>e \<in> set (state_entries s). entry_pnn e = pnn)
      \<longrightarrow> fst (run_registrations [(node, pnn, in_nodes), (node', pnn, in_nodes')] s)
            = [Inr (), Inl (ValueError Duplicate_pnn)])"
proof (intro conjI impI)
  assume "\<exists>e \<in> set (state_entries s). entry_pnn e = pnn"
  then show "add_node_to_statefile node pnn in_nodes s = (Inl (ValueError Duplicate_pnn), s)"
    by (rule add_node_duplicate)
next
  show "registered pnn reqs (fst (run_registrations reqs s)) \<le> 1"
    by (rule registered_at_most_once)
next
  assume fresh: "\<not> (\<exists>e \<in> set (state_entries s). entry_pnn e = pnn)"
  let ?s1 = "snd (add_node_to_statefile node pnn in_nodes s)"
  from add_node_fresh(2) [OF fresh, of node in_nodes]
  have "\<exists>e \<in> set (state_entries ?s1). entry_pnn e = pnn" by auto
  from add_node_duplicate [OF this, of node' in_nodes'] add_node_fresh(1) [OF fresh, of node in_nodes]
  show "fst (run_registrations [(node, pnn, in_nodes), (node', pnn, in_nodes')] s)
            = [Inr (), Inl (ValueError Duplicate_pnn)]"
    by (simp add: run_registrations_Cons)
qed

theorem duplicate_pnn_registration_witness:
  "add_node_to_statefile ''10.0.0.12'' 1 False scenario_B
     = (Inl (ValueError Duplicate_pnn), scenario_B)
   \<and> fst (run_registrations [(''10.0.0.12'', 2, False), (''10.0.0.13'', 2, False)] scenario_B)
       = [Inr (), Inl (ValueError Duplicate_pnn)]"
proof -
  have ent: "state_entries scenario_B = [node_10, node_11]"
    by (simp add: state_entries_def scenario_B_def get_nodes_def)
  have dup: "\<exists>e \<in> set (state_entries scenario_B). entry_pnn e = 1"
    by (simp add: ent node_11_def)
  have fresh: "\<not> (\<exists>e \<in> set (state_entries scenario_B). entry_pnn e = 2)"
    by (simp add: ent node_10_def node_11_def)
  from duplicate_pnn_registration
         [of scenario_B 1 "''10.0.0.12''" False "[]" "''10.0.0.13''" False] dup
       duplicate_pnn_registration
         [of scenario_B 2 "''10.0.0.12''" False "[]" "''10.0.0.13''" False] fresh
  show ?thesis by blast
qed

text \<open>
  C6. Setting a node (identity, address, pnn) for which the state file already has a
  matching entry succeeds and changes nothing: the refresh returns and the command
  with it, so neither the registration (which would raise the duplicate-pnn error) nor
  the nodes file update runs.
\<close>

theorem set_node_refresh_is_noop:
  assumes "sambacc_ctdb = Some ''ctdb-is-experimental''"
      and "\<exists>e \<in> set (state_entries s).
             entry_pnn e = (case node_number of None \<Rightarrow> 0 | Some n \<Rightarrow> n)
             \<and> entry_node e = node_ip_addr"
  shows "ctdb_set_node sambacc_ctdb identity node_ip_addr node_number persistent_path s
           = (Inr (), s)"
  using assms
  by (auto simp: ctdb_set_node_def ctdb_ok_def refresh_node_in_cluster_meta_def
      list_ex_iff Let_def)

theorem set_node_refresh_is_noop_witness:
  "ctdb_set_node (Some ''ctdb-is-experimental'') ''node-1'' ''10.0.0.11'' (Some 1) ''/nodes''
     scenario_B = (Inr (), scenario_B)"
proof -
  have "\<exists>e \<in> set (state_entries scenario_B).
             entry_pnn e = (case Some 1 of None \<Rightarrow> 0 | Some n \<Rightarrow> n)
             \<and> entry_node e = ''10.0.0.11''"
    by (simp add: state_entries_def scenario_B_def get_nodes_def node_10_def node_11_def)
  from set_node_refresh_is_noop [OF refl this] show ?thesis .
qed

section \<open>The supervisor loop\<close>

lemma loop_failures:
  "\<forall>e \<in> set errs. e \<noteq> KeyboardInterrupt \<Longrightarrow> errors \<le> 10 \<Longrightarrow>
   ctdb_manage_nodes_loop errors (map Raises errs @ rest) =
     (if errors + length errs \<le> 10 then ctdb_manage_nodes_loop (errors + length errs) rest
      else Propagated (errs ! (10 - errors)))"
proof (induction errs arbitrary: errors)
  case Nil
  then show ?case by simp
next
  case (Cons e errs)
  show ?case
  proof (cases "errors = 10")
    case True
    with Cons.prems show ?thesis by simp
  next
    case False
    with Cons.prems have lt: "Suc errors \<le> 10" by simp
    from Cons.prems have "\<forall>e \<in> set errs. e \<noteq> KeyboardInterrupt" by simp
    from Cons.IH [OF this lt] Cons.prems False show ?thesis
      by (auto simp: Suc_diff_le)
  qed
qed

lemma loop_running_bound:
  "errors \<le> 10 \<Longrightarrow> ctdb_manage_nodes_loop errors calls = Running n \<Longrightarrow> n \<le> 10"
  by (induction errors calls rule: ctdb_manage_nodes_loop.induct)
     (auto split: if_splits simp: Let_def)

text \<open>
  C8. The loop of \<open>ctdb_manage_nodes\<close> with the counter at \<open>errors\<close> (at most 10, as it
  always is while the loop runs): a run of failing calls adds one to the counter for
  each and the loop goes on as long as the counter is at most 10; the failure that
  takes the counter past 10 is raised again, and it is the first to be (from a counter
  at zero: the eleventh in a row). A call that returns sets the counter back to zero.
\<close>

theorem supervisor_retry_bound:
  assumes "\<forall>e \<in> set errs. e \<noteq> KeyboardInterrupt" and "errors \<le> 10"
  shows "ctdb_manage_nodes_loop errors (map Raises errs @ calls) =
           (if errors + length errs \<le> 10
            then ctdb_manage_nodes_loop (errors + length errs) calls
            else Propagated (errs ! (10 - errors)))
         \<and> ctdb_manage_nodes_loop errors (Returns # calls) = ctdb_manage_nodes_loop 0 calls
         \<and> (\<forall>n. ctdb_manage_nodes_loop errors calls = Running n \<longrightarrow> n \<le> 10)"
  using loop_failures [OF assms] loop_running_bound [OF assms(2)] by simp

theorem supervisor_retry_bound_witness:
  "ctdb_manage_nodes_loop 0 (map Raises (replicate 11 (CalledProcessError 1)) @ [Returns])
     = Propagated (CalledProcessError 1)
   \<and> ctdb_manage_nodes_loop 0 (map Raises (replicate 10 (CalledProcessError 1)) @ [Returns])
     = Running 0"
proof -
  have a: "\<forall>e \<in> set (replicate 11 (CalledProcessError 1)). e \<noteq> KeyboardInterrupt" by simp
  have b: "\<forall>e \<in> set (replicate 10 (CalledProcessError 1)). e \<noteq> KeyboardInterrupt" by simp
  have c: "(0 :: nat) \<le> 10" by simp
  from supervisor_retry_bound [OF a c, of "[Returns]"]
       supervisor_retry_bound [OF b c, of "[Returns]"]
  show ?thesis by simp
qed

section \<open>Ensuring that a node is in the nodes file\<close>

lemma py_list_index_first:
  "py_list_index xs x
     = (if x \<in> set xs then Some (length (takeWhile (\<lambda>y. y \<noteq> x) xs)) else None)"
  by (induction xs) auto

lemma takeWhile_absent:
  "x \<notin> set xs \<Longrightarrow> takeWhile (\<lambda>y. y \<noteq> x) xs = xs"
  "x \<notin> set xs \<Longrightarrow> takeWhile (\<lambda>y. y \<noteq> x) (xs @ [x]) = xs"
  by (induction xs) auto

text \<open>
  C10. \<open>ensure_ctdb_node_present\<close>: when the node is already in the nodes file and the
  call succeeds, the list written is the list read, with nothing appended. When
  \<open>expected_pnn\<close> is given and differs from the position of the node (its first
  position in the list read, or the end of that list when it had to be appended),
  \<open>ValueError\<close> is raised and the nodes file and the symlink are as they were.
  Otherwise the call succeeds, links the canonical path and writes the list.
\<close>

theorem ensure_ctdb_node_present_guard:
  "(node \<in> set (read_ctdb_nodes (nodes_file s))
      \<longrightarrow> fst (ensure_ctdb_node_present node real_path expected_pnn s) = Inr ()
      \<longrightarrow> nodes_file (snd (ensure_ctdb_node_present node real_path expected_pnn s))
            = Some (write_nodes_file [] (read_ctdb_nodes (nodes_file s))))
   \<and> (\<forall>p. expected_pnn = Some p
          \<and> p \<noteq> int (length (takeWhile (\<lambda>x. x \<noteq> node) (read_ctdb_nodes (nodes_file s))))
      \<longrightarrow> ensure_ctdb_node_present node real_path expected_pnn s
            = (Inl (ValueError (Expected_pnn_is_not p
                 (int (length (takeWhile (\<lambda>x. x \<noteq> node) (read_ctdb_nodes (nodes_file s))))))),
               s))
   \<and> (expected_pnn = None
        \<or> expected_pnn
             = Some (int (length (takeWhile (\<lambda>x. x \<noteq> node) (read_ctdb_nodes (nodes_file s)))))
      \<longrightarrow> ensure_ctdb_node_present node real_path expected_pnn s
            = (Inr (),
               s\<lparr>canon_link := Some real_path,
                 nodes_file := Some (write_nodes_file []
                   (if node \<in> set (read_ctdb_nodes (nodes_file s))
                    then read_ctdb_nodes (nodes_file s)
                    else read_ctdb_nodes (nodes_file s) @ [node]))\<rparr>))"
  by (auto simp: ensure_ctdb_node_present_def ensure_ctdb_nodes_def Let_def
      py_list_index_first takeWhile_absent split: option.splits)

theorem ensure_ctdb_node_present_guard_witness:
  "ensure_ctdb_node_present ''10.0.0.11'' ''/nodes'' (Some 0) scenario_two_nodes
     = (Inl (ValueError (Expected_pnn_is_not 0 1)), scenario_two_nodes)
   \<and> ensure_ctdb_node_present ''10.0.0.11'' ''/nodes'' (Some 1) scenario_two_nodes
     = (Inr (), scenario_two_nodes)"
proof -
  have rd: "read_ctdb_nodes (nodes_file scenario_two_nodes) = [''10.0.0.10'', ''10.0.0.11'']"
    by code_simp
  from ensure_ctdb_node_present_guard
         [of "''10.0.0.11''" scenario_two_nodes "''/nodes''" "Some 0"]
       ensure_ctdb_node_present_guard
         [of "''10.0.0.11''" scenario_two_nodes "''/nodes''" "Some 1"]
  show ?thesis unfolding rd by (simp add: scenario_two_nodes_def)
qed

end
